theory Spec2Isabelle
  imports Complex_Main "HOL-Library.Sublist"
begin

section \<open>JavaScript numbers\<close>

text \<open>
  A JavaScript Number is a finite value, one of the two infinities, or NaN. Finite values
  carry their exact mathematical value: rounding to binary64 and overflow of a finite
  result are outside this model. The two zeros are identified: they are equal under
  \<open>===\<close>, both falsy, and the program never divides by a zero (every division goes
  through \<open>safeDivide\<close>).
\<close>

datatype jsnum = Fin rat | PosInf | NegInf | NaN

fun js_add :: "jsnum \<Rightarrow> jsnum \<Rightarrow> jsnum" where
  "js_add NaN _ = NaN"
| "js_add _ NaN = NaN"
| "js_add PosInf NegInf = NaN"
| "js_add NegInf PosInf = NaN"
| "js_add PosInf _ = PosInf"
| "js_add _ PosInf = PosInf"
| "js_add NegInf _ = NegInf"
| "js_add _ NegInf = NegInf"
| "js_add (Fin a) (Fin b) = Fin (a + b)"

fun js_neg :: "jsnum \<Rightarrow> jsnum" where
  "js_neg (Fin a) = Fin (- a)"
| "js_neg PosInf = NegInf"
| "js_neg NegInf = PosInf"
| "js_neg NaN = NaN"

text \<open>The sign of an infinite product or quotient: \<open>flip\<close> says whether the signs differ.\<close>

definition signed_inf :: "bool \<Rightarrow> jsnum" where
  "signed_inf flip = (if flip then NegInf else PosInf)"

fun js_mul :: "jsnum \<Rightarrow> jsnum \<Rightarrow> jsnum" where
  "js_mul NaN _ = NaN"
| "js_mul _ NaN = NaN"
| "js_mul (Fin a) (Fin b) = Fin (a * b)"
| "js_mul (Fin a) PosInf = (if a = 0 then NaN else signed_inf (a < 0))"
| "js_mul (Fin a) NegInf = (if a = 0 then NaN else signed_inf (0 < a))"
| "js_mul PosInf (Fin b) = (if b = 0 then NaN else signed_inf (b < 0))"
| "js_mul NegInf (Fin b) = (if b = 0 then NaN else signed_inf (0 < b))"
| "js_mul PosInf PosInf = PosInf"
| "js_mul NegInf NegInf = PosInf"
| "js_mul PosInf NegInf = NegInf"
| "js_mul NegInf PosInf = NegInf"

text \<open>
  Division. A finite value over zero follows IEEE 754 for the positive zero; the program
  never reaches those equations.
\<close>

fun js_div :: "jsnum \<Rightarrow> jsnum \<Rightarrow> jsnum" where
  "js_div NaN _ = NaN"
| "js_div _ NaN = NaN"
| "js_div (Fin a) (Fin b) =
     (if b = 0 then (if a = 0 then NaN else signed_inf (a < 0)) else Fin (a / b))"
| "js_div (Fin a) PosInf = Fin 0"
| "js_div (Fin a) NegInf = Fin 0"
| "js_div PosInf (Fin b) = signed_inf (b < 0)"
| "js_div NegInf (Fin b) = signed_inf (0 \<le> b)"
| "js_div PosInf PosInf = NaN"
| "js_div PosInf NegInf = NaN"
| "js_div NegInf PosInf = NaN"
| "js_div NegInf NegInf = NaN"

instantiation jsnum :: "{comm_monoid_add, minus, times, inverse}"
begin

definition zero_jsnum :: jsnum where "zero_jsnum = Fin 0"
definition plus_jsnum :: "jsnum \<Rightarrow> jsnum \<Rightarrow> jsnum" where "plus_jsnum = js_add"
definition minus_jsnum :: "jsnum \<Rightarrow> jsnum \<Rightarrow> jsnum" where "minus_jsnum a b = js_add a (js_neg b)"
definition times_jsnum :: "jsnum \<Rightarrow> jsnum \<Rightarrow> jsnum" where "times_jsnum = js_mul"
definition divide_jsnum :: "jsnum \<Rightarrow> jsnum \<Rightarrow> jsnum" where "divide_jsnum = js_div"
definition inverse_jsnum :: "jsnum \<Rightarrow> jsnum" where "inverse_jsnum = js_div (Fin 1)"

instance
proof
  fix a b c :: jsnum
  show "a + b + c = a + (b + c)"
    unfolding plus_jsnum_def by (cases a; cases b; cases c; simp)
  show "a + b = b + a"
    unfolding plus_jsnum_def by (cases a; cases b; simp)
  show "0 + a = a"
    unfolding plus_jsnum_def zero_jsnum_def by (cases a; simp)
qed

end

text \<open>ToBoolean on a Number: zero and NaN are falsy, everything else is truthy.\<close>

fun truthy :: "jsnum \<Rightarrow> bool" where
  "truthy (Fin a) = (a \<noteq> 0)"
| "truthy NaN = False"
| "truthy _ = True"


text \<open>\<open>x || d\<close> on Numbers.\<close>

definition js_or :: "jsnum \<Rightarrow> jsnum \<Rightarrow> jsnum" where
  "js_or x d = (if truthy x then x else d)"

text \<open>\<open>const safeDivide = (numerator, denominator) => (denominator ? numerator / denominator : 0)\<close>\<close>

definition safeDivide :: "jsnum \<Rightarrow> jsnum \<Rightarrow> jsnum" where
  "safeDivide numerator denominator = (if truthy denominator then numerator / denominator else 0)"


section \<open>JavaScript strings and the values of a raw cell\<close>

text \<open>
  A string is a sequence of UTF-16 code units, each given by its number. \<open>js\<close> writes
  an ASCII literal as such a sequence.
\<close>

type_synonym jsstring = "nat list"

definition js :: "string \<Rightarrow> jsstring" where
  "js s = map of_char s"

text \<open>
  The values a cell lookup can hand to a built-in: \<open>undefined\<close> (the key is absent),
  a string, and a Symbol, the primitive on which ToString throws a TypeError.
\<close>

datatype jsval = Undefined | Str jsstring | Symbol

datatype js_exn = TypeError

fun ToString :: "jsval \<Rightarrow> js_exn + jsstring" where
  "ToString Undefined = Inr (js ''undefined'')"
| "ToString (Str s) = Inr s"
| "ToString Symbol = Inl TypeError"

text \<open>
  StrWhiteSpaceChar of ECMAScript: TAB, VT, FF, the space separators (category Zs),
  U+FEFF, and the line terminators LF, CR, U+2028, U+2029.
\<close>

definition isWhiteSpace :: "nat \<Rightarrow> bool" where
  "isWhiteSpace c \<longleftrightarrow>
     c = 9 \<or> c = 10 \<or> c = 11 \<or> c = 12 \<or> c = 13 \<or> c = 32 \<or> c = 160 \<or> c = 5760 \<or>
     (8192 \<le> c \<and> c \<le> 8202) \<or> c = 8232 \<or> c = 8233 \<or> c = 8239 \<or> c = 8287 \<or>
     c = 12288 \<or> c = 65279"

definition isDigit :: "nat \<Rightarrow> bool" where
  "isDigit c \<longleftrightarrow> 48 \<le> c \<and> c \<le> 57"

text \<open>The mathematical value of a run of decimal digits, most significant first.\<close>

definition digits_val :: "jsstring \<Rightarrow> nat" where
  "digits_val ds = foldl (\<lambda>a c. 10 * a + (c - 48)) 0 ds"

text \<open>
  \<open>parseInt(v, 10)\<close>: ToString, skip leading white space, take an optional sign, then the
  longest run of decimal digits; NaN when that run is empty. (With radix 10 no \<open>0x\<close>
  prefix is stripped.)
\<close>

definition parseInt10 :: "jsval \<Rightarrow> js_exn + jsnum" where
  "parseInt10 v =
     (case ToString v of
        Inl e \<Rightarrow> Inl e
      | Inr inputString \<Rightarrow>
          let S = dropWhile isWhiteSpace inputString;
              sign = (if S \<noteq> [] \<and> hd S = 45 then - 1 else 1);
              S' = (if S \<noteq> [] \<and> (hd S = 43 \<or> hd S = 45) then tl S else S);
              Z = takeWhile isDigit S'
          in Inr (if Z = [] then NaN else Fin (sign * of_nat (digits_val Z))))"

text \<open>
  \<open>parseFloat(v)\<close>: ToString, skip leading white space, then the longest prefix that is a
  StrDecimalLiteral: an optional sign, then \<open>Infinity\<close> or decimal digits with an optional
  fraction and an optional exponent. An exponent counts only when it is complete
  (\<open>e\<close> or \<open>E\<close>, an optional sign, at least one digit).
\<close>

definition exponent_part :: "jsstring \<Rightarrow> int" where
  "exponent_part r =
     (if r \<noteq> [] \<and> (hd r = 101 \<or> hd r = 69) then
        let r1 = tl r;
            neg = (r1 \<noteq> [] \<and> hd r1 = 45);
            r2 = (if r1 \<noteq> [] \<and> (hd r1 = 43 \<or> hd r1 = 45) then tl r1 else r1);
            ds = takeWhile isDigit r2
        in if ds = [] then 0 else if neg then - int (digits_val ds) else int (digits_val ds)
      else 0)"

definition pow10 :: "int \<Rightarrow> rat" where
  "pow10 e = (if 0 \<le> e then 10 ^ nat e else 1 / 10 ^ nat (- e))"

definition unsigned_decimal :: "jsstring \<Rightarrow> jsnum" where
  "unsigned_decimal u =
     (if take 8 u = js ''Infinity'' then PosInf
      else
        let ip = takeWhile isDigit u;
            r1 = dropWhile isDigit u;
            dot = (r1 \<noteq> [] \<and> hd r1 = 46);
            fp = (if dot then takeWhile isDigit (tl r1) else []);
            r2 = (if dot then dropWhile isDigit (tl r1) else r1)
        in if ip = [] \<and> fp = [] then NaN
           else Fin (of_nat (digits_val (ip @ fp)) * pow10 (exponent_part r2 - int (length fp))))"

definition parseFloat :: "jsval \<Rightarrow> js_exn + jsnum" where
  "parseFloat v =
     (case ToString v of
        Inl e \<Rightarrow> Inl e
      | Inr inputString \<Rightarrow>
          let S = dropWhile isWhiteSpace inputString;
              neg = (S \<noteq> [] \<and> hd S = 45);
              S' = (if S \<noteq> [] \<and> (hd S = 43 \<or> hd S = 45) then tl S else S);
              m = unsigned_decimal S'
          in Inr (if neg then js_neg m else m))"


section \<open>Dates\<close>

text \<open>
  A Date object holds a time value: an integral number of milliseconds, or NaN
  (\<open>None\<close>) for an invalid date. \<open>Date.parse\<close> is implementation-defined outside the ISO
  format, so it is a parameter \<open>P\<close> of the model: \<open>P s = None\<close> says that \<open>s\<close> does not
  parse.
\<close>

datatype jsdate = Date (DateValue: "int option")

definition TimeClip :: "int option \<Rightarrow> int option" where
  "TimeClip t = (case t of None \<Rightarrow> None
                 | Some ms \<Rightarrow> if \<bar>ms\<bar> > 8640000000000000 then None else Some ms)"

text \<open>\<open>new Date(v)\<close>: a string is parsed, \<open>undefined\<close> converts to NaN, a Symbol throws.\<close>

fun new_Date :: "(jsstring \<Rightarrow> int option) \<Rightarrow> jsval \<Rightarrow> js_exn + jsdate" where
  "new_Date P (Str s) = Inr (Date (TimeClip (P s)))"
| "new_Date P Undefined = Inr (Date None)"
| "new_Date P Symbol = Inl TypeError"

text \<open>
  \<open>a >= b\<close> and \<open>a <= b\<close> on Date objects compare the time values as Numbers; a
  comparison with NaN on either side is false.
\<close>

definition date_ge :: "jsdate \<Rightarrow> jsdate \<Rightarrow> bool" where
  "date_ge a b = (case (DateValue a, DateValue b) of (Some x, Some y) \<Rightarrow> x \<ge> y | _ \<Rightarrow> False)"

definition date_le :: "jsdate \<Rightarrow> jsdate \<Rightarrow> bool" where
  "date_le a b = (case (DateValue a, DateValue b) of (Some x, Some y) \<Rightarrow> x \<le> y | _ \<Rightarrow> False)"

section \<open>Loading: schema check and row normalisation (\<open>onDrop\<close>)\<close>

text \<open>A raw row maps column names to strings; a key the row lacks reads as \<open>undefined\<close>.\<close>

type_synonym rawrow = "jsstring \<rightharpoonup> jsstring"

definition cell :: "rawrow \<Rightarrow> jsstring \<Rightarrow> jsval" where
  "cell row k = (case row k of None \<Rightarrow> Undefined | Some s \<Rightarrow> Str s)"

text \<open>
  The object built for a row: \<open>{ id: index, ...row, Clicks: ..., ... }\<close>. A column named
  \<open>id\<close> overwrites the index, since the spread comes after it; the spread itself is kept as
  \<open>passthrough\<close>.
\<close>

datatype idval = Index nat | Column jsstring

record campaign =
  row_id :: idval
  passthrough :: rawrow
  Clicks :: jsnum
  Cost :: jsnum
  Avg_CPC :: jsnum
  Installs :: jsnum
  Trials :: jsnum
  Subscriptions :: jsnum
  Subscription_Value :: jsnum
  Start_Date :: jsdate
  End_Date :: jsdate
  Ad_Group :: jsval

datatype app_error =
    CsvParseError jsstring
  | MissingColumns "jsstring list"
  | RowProcessingError nat js_exn

definition REQUIRED_COLUMNS :: "jsstring list" where
  "REQUIRED_COLUMNS = map js [''Clicks'', ''Cost'', ''Avg. CPC'', ''Installs'', ''Trials'',
     ''Subscriptions'', ''Subscription Value'', ''Start Date'', ''End Date'', ''Ad Group'']"

text \<open>Sequencing of steps that may throw: the first exception ends the evaluation.\<close>

definition bind_exn :: "'e + 'a \<Rightarrow> ('a \<Rightarrow> 'e + 'b) \<Rightarrow> 'e + 'b" where
  "bind_exn m f = (case m of Inl e \<Rightarrow> Inl e | Inr x \<Rightarrow> f x)"

text \<open>The body of the \<open>try\<close> block, its properties evaluated in source order.\<close>

definition row_object :: "(jsstring \<Rightarrow> int option) \<Rightarrow> nat \<Rightarrow> rawrow \<Rightarrow> js_exn + campaign" where
  "row_object P index row =
     bind_exn (parseInt10 (cell row (js ''Clicks''))) (\<lambda>clicks.
     bind_exn (parseFloat (cell row (js ''Cost''))) (\<lambda>cost.
     bind_exn (parseFloat (cell row (js ''Avg. CPC''))) (\<lambda>cpc.
     bind_exn (parseInt10 (cell row (js ''Installs''))) (\<lambda>installs.
     bind_exn (parseInt10 (cell row (js ''Trials''))) (\<lambda>trials.
     bind_exn (parseInt10 (cell row (js ''Subscriptions''))) (\<lambda>subs.
     bind_exn (parseFloat (cell row (js ''Subscription Value''))) (\<lambda>sv.
     bind_exn (new_Date P (cell row (js ''Start Date''))) (\<lambda>sd.
     bind_exn (new_Date P (cell row (js ''End Date''))) (\<lambda>ed.
       Inr \<lparr> row_id = (case row (js ''id'') of None \<Rightarrow> Index index | Some s \<Rightarrow> Column s),
             passthrough = row,
             Clicks = js_or clicks 0,
             Cost = js_or cost 0,
             Avg_CPC = js_or cpc 0,
             Installs = js_or installs 0,
             Trials = js_or trials 0,
             Subscriptions = js_or subs 0,
             Subscription_Value = js_or sv 0,
             Start_Date = sd,
             End_Date = ed,
             Ad_Group = cell row (js ''Ad Group'') \<rparr>)))))))))"

text \<open>
  The callback of \<open>data.map\<close>: an exception of the body is rethrown as
  \<open>Error processing row ${index + 2}\<close>.
\<close>

definition processRow :: "(jsstring \<Rightarrow> int option) \<Rightarrow> nat \<Rightarrow> rawrow \<Rightarrow> app_error + campaign" where
  "processRow P index row =
     (case row_object P index row of
        Inl e \<Rightarrow> Inl (RowProcessingError (index + 2) e)
      | Inr r \<Rightarrow> Inr r)"

text \<open>\<open>data.map((row, index) => ...)\<close> from a starting index; the first throw ends the map.\<close>

fun processedData :: "(jsstring \<Rightarrow> int option) \<Rightarrow> nat \<Rightarrow> rawrow list \<Rightarrow> app_error + campaign list" where
  "processedData P index [] = Inr []"
| "processedData P index (row # rows) =
     bind_exn (processRow P index row) (\<lambda>r.
     bind_exn (processedData P (Suc index) rows) (\<lambda>rs. Inr (r # rs)))"

text \<open>What the CSV reader hands to \<open>complete\<close>: the rows, its error messages, the header.\<close>

record results =
  data :: "rawrow list"
  errors :: "jsstring list"
  meta_fields :: "jsstring list"

definition missingColumns :: "jsstring list \<Rightarrow> jsstring list" where
  "missingColumns headers = filter (\<lambda>col. col \<notin> set headers) REQUIRED_COLUMNS"

text \<open>
  The \<open>complete\<close> callback: \<open>Inl\<close> is the error given to \<open>setAppError\<close> (or thrown),
  \<open>Inr\<close> the dataset given to \<open>onDataLoaded\<close>.
\<close>

definition complete :: "(jsstring \<Rightarrow> int option) \<Rightarrow> results \<Rightarrow> app_error + campaign list" where
  "complete P res =
     (if length (errors res) > 0 then Inl (CsvParseError (hd (errors res)))
      else
        let headers = meta_fields res in
        if length (missingColumns headers) > 0 then Inl (MissingColumns (missingColumns headers))
        else processedData P 0 (data res))"

section \<open>The dashboard: filter and summary\<close>

text \<open>The filter state; \<open>None\<close> is an \<open>undefined\<close> bound of the date range.\<close>

record date_range =
  range_from :: "jsdate option"
  range_to :: "jsdate option"

record filters =
  dateRange :: date_range
  adGroup :: jsstring

text \<open>
  \<open>!from || (itemDate >= from && (!to || itemDate <= to))\<close>: an \<open>undefined\<close> bound is
  falsy, every Date object is truthy.
\<close>

definition inDateRange :: "filters \<Rightarrow> campaign \<Rightarrow> bool" where
  "inDateRange f item =
     (let itemDate = Start_Date item in
      case range_from (dateRange f) of
        None \<Rightarrow> True
      | Some lo \<Rightarrow>
          date_ge itemDate lo \<and>
          (case range_to (dateRange f) of None \<Rightarrow> True | Some hi \<Rightarrow> date_le itemDate hi))"


definition inAdGroup :: "filters \<Rightarrow> campaign \<Rightarrow> bool" where
  "inAdGroup f item = (adGroup f = js ''All Ad Groups'' \<or> Ad_Group item = Str (adGroup f))"

definition filteredData :: "campaign list \<Rightarrow> filters \<Rightarrow> campaign list" where
  "filteredData dat f = filter (\<lambda>item. inDateRange f item \<and> inAdGroup f item) dat"

record totals =
  total_Clicks :: jsnum
  total_Cost :: jsnum
  total_Installs :: jsnum
  total_Trials :: jsnum
  total_Subscriptions :: jsnum
  total_Subscription_Value :: jsnum

record summary = totals +
  cpi :: jsnum
  installRate :: jsnum
  installToTrialRate :: jsnum
  trialCost :: jsnum
  installToPaidRate :: jsnum
  cac :: jsnum
  valueCostRatio :: jsnum
  overallConversion :: jsnum
  roi :: jsnum

definition initial :: totals where
  "initial = \<lparr> total_Clicks = 0, total_Cost = 0, total_Installs = 0, total_Trials = 0,
               total_Subscriptions = 0, total_Subscription_Value = 0 \<rparr>"

text \<open>The reducer: \<open>acc.X += row.X\<close> for five columns, and the weighted revenue.\<close>

definition reducer :: "totals \<Rightarrow> campaign \<Rightarrow> totals" where
  "reducer acc row =
     \<lparr> total_Clicks = total_Clicks acc + Clicks row,
       total_Cost = total_Cost acc + Cost row,
       total_Installs = total_Installs acc + Installs row,
       total_Trials = total_Trials acc + Trials row,
       total_Subscriptions = total_Subscriptions acc + Subscriptions row,
       total_Subscription_Value =
         total_Subscription_Value acc + Subscriptions row * Subscription_Value row \<rparr>"

definition summary :: "campaign list \<Rightarrow> summary" where
  "summary filtered =
     (let totals = foldl reducer initial filtered in
      \<lparr> total_Clicks = total_Clicks totals,
        total_Cost = total_Cost totals,
        total_Installs = total_Installs totals,
        total_Trials = total_Trials totals,
        total_Subscriptions = total_Subscriptions totals,
        total_Subscription_Value = total_Subscription_Value totals,
        cpi = safeDivide (total_Cost totals) (total_Installs totals),
        installRate = safeDivide (total_Installs totals) (total_Clicks totals),
        installToTrialRate = safeDivide (total_Trials totals) (total_Installs totals),
        trialCost = safeDivide (total_Cost totals) (total_Trials totals),
        installToPaidRate = safeDivide (total_Subscriptions totals) (total_Installs totals),
        cac = safeDivide (total_Cost totals) (total_Subscriptions totals),
        valueCostRatio = safeDivide (total_Subscription_Value totals) (total_Cost totals),
        overallConversion = safeDivide (total_Subscriptions totals) (total_Clicks totals),
        roi = safeDivide (total_Subscription_Value totals - total_Cost totals) (total_Cost totals) \<rparr>)"

text \<open>
  The "Trial to Subscription" rate, computed where it is displayed:
  \<open>safeDivide(summary.Subscriptions, summary.Trials)\<close>.
\<close>

definition trialToSubscription :: "summary \<Rightarrow> jsnum" where
  "trialToSubscription s = safeDivide (total_Subscriptions s) (total_Trials s)"

section \<open>Sample data\<close>

text \<open>A raw row written as a list of column and cell literals.\<close>

definition row_of :: "(string \<times> string) list \<Rightarrow> rawrow" where
  "row_of kvs = map_of (map (\<lambda>(k, v). (js k, js v)) kvs)"

text \<open>
  The example row of the specification, and the record it normalises to at index 0 under
  \<open>sample_parse\<close> below.
\<close>

definition sample_row :: rawrow where
  "sample_row = row_of
     [(''Clicks'', ''100''), (''Cost'', ''50''), (''Avg. CPC'', ''0.5''), (''Installs'', ''20''),
      (''Trials'', ''10''), (''Subscriptions'', ''5''), (''Subscription Value'', ''20''),
      (''Start Date'', ''2024-01-15''), (''End Date'', ''2024-02-01''), (''Ad Group'', ''Brand'')]"

definition sample_record :: campaign where
  "sample_record =
     \<lparr> row_id = Index 0, passthrough = sample_row,
       Clicks = Fin 100, Cost = Fin 50, Avg_CPC = Fin (1 / 2), Installs = Fin 20,
       Trials = Fin 10, Subscriptions = Fin 5, Subscription_Value = Fin 20,
       Start_Date = Date (Some 1705276800000), End_Date = Date (Some 1706745600000),
       Ad_Group = Str (js ''Brand'') \<rparr>"







text \<open>A date parser that knows two ISO days (as UTC midnights) and rejects everything else.\<close>

definition sample_parse :: "jsstring \<Rightarrow> int option" where
  "sample_parse s =
     (if s = js ''2024-01-15'' then Some 1705276800000
      else if s = js ''2024-02-01'' then Some 1706745600000
      else None)"



section \<open>Properties of the summary\<close>


lemma reducer_sel:
  "total_Clicks (reducer acc r) = total_Clicks acc + Clicks r"
  "total_Cost (reducer acc r) = total_Cost acc + Cost r"
  "total_Installs (reducer acc r) = total_Installs acc + Installs r"
  "total_Trials (reducer acc r) = total_Trials acc + Trials r"
  "total_Subscriptions (reducer acc r) = total_Subscriptions acc + Subscriptions r"
  "total_Subscription_Value (reducer acc r) =
     total_Subscription_Value acc + Subscriptions r * Subscription_Value r"
  by (simp_all add: reducer_def)

lemma foldl_reducer:
  "foldl reducer acc R =
     \<lparr> total_Clicks = total_Clicks acc + sum_list (map Clicks R),
       total_Cost = total_Cost acc + sum_list (map Cost R),
       total_Installs = total_Installs acc + sum_list (map Installs R),
       total_Trials = total_Trials acc + sum_list (map Trials R),
       total_Subscriptions = total_Subscriptions acc + sum_list (map Subscriptions R),
       total_Subscription_Value =
         total_Subscription_Value acc + (\<Sum>r\<leftarrow>R. Subscriptions r * Subscription_Value r) \<rparr>"
proof (induction R arbitrary: acc)
  case Nil
  show ?case by simp
next
  case (Cons r R)
  have "foldl reducer acc (r # R) = foldl reducer (reducer acc r) R"
    by simp
  also have "\<dots> = \<lparr> total_Clicks = total_Clicks (reducer acc r) + sum_list (map Clicks R),
       total_Cost = total_Cost (reducer acc r) + sum_list (map Cost R),
       total_Installs = total_Installs (reducer acc r) + sum_list (map Installs R),
       total_Trials = total_Trials (reducer acc r) + sum_list (map Trials R),
       total_Subscriptions = total_Subscriptions (reducer acc r) + sum_list (map Subscriptions R),
       total_Subscription_Value =
         total_Subscription_Value (reducer acc r) + (\<Sum>r\<leftarrow>R. Subscriptions r * Subscription_Value r) \<rparr>"
    by (rule Cons.IH)
  finally show ?case
    by (simp add: reducer_sel add.assoc)
qed

lemma summary_totals:
  "total_Clicks (summary R) = sum_list (map Clicks R)"
  "total_Cost (summary R) = sum_list (map Cost R)"
  "total_Installs (summary R) = sum_list (map Installs R)"
  "total_Trials (summary R) = sum_list (map Trials R)"
  "total_Subscriptions (summary R) = sum_list (map Subscriptions R)"
  "total_Subscription_Value (summary R) = (\<Sum>r\<leftarrow>R. Subscriptions r * Subscription_Value r)"
  by (simp_all add: summary_def Let_def foldl_reducer initial_def)

lemma summary_ratios:
  "cpi (summary R) = safeDivide (total_Cost (summary R)) (total_Installs (summary R))"
  "installRate (summary R) = safeDivide (total_Installs (summary R)) (total_Clicks (summary R))"
  "installToTrialRate (summary R) = safeDivide (total_Trials (summary R)) (total_Installs (summary R))"
  "trialCost (summary R) = safeDivide (total_Cost (summary R)) (total_Trials (summary R))"
  "installToPaidRate (summary R) = safeDivide (total_Subscriptions (summary R)) (total_Installs (summary R))"
  "cac (summary R) = safeDivide (total_Cost (summary R)) (total_Subscriptions (summary R))"
  "valueCostRatio (summary R) = safeDivide (total_Subscription_Value (summary R)) (total_Cost (summary R))"
  "overallConversion (summary R) = safeDivide (total_Subscriptions (summary R)) (total_Clicks (summary R))"
  "roi (summary R) = safeDivide (total_Subscription_Value (summary R) - total_Cost (summary R)) (total_Cost (summary R))"
  by (simp_all add: summary_def Let_def)

lemma js_inj: "js a = js b \<longleftrightarrow> a = b"
  unfolding js_def by (simp add: inj_map_eq_map inj_of_char)

lemma row_of_lookup: "row_of kvs (js k) = map_option js (map_of kvs k)"
  unfolding row_of_def by (induction kvs) (auto simp: js_inj)

lemma safeDivide_zero: "safeDivide n 0 = 0" "safeDivide n (Fin 0) = Fin 0" "safeDivide n NaN = Fin 0"
  by (simp_all add: safeDivide_def zero_jsnum_def)





lemmas parse_defs = parseInt10_def parseFloat_def unsigned_decimal_def exponent_part_def pow10_def
  isWhiteSpace_def isDigit_def digits_val_def js_def

lemma cell_row_of: "cell (row_of kvs) (js k) = (case map_of kvs k of None \<Rightarrow> Undefined | Some v \<Rightarrow> Str (js v))"
  by (simp add: cell_def row_of_lookup split: option.splits)


lemma sample_row_object: "row_object sample_parse 0 sample_row = Inr sample_record"
proof -
  have cells:
    "cell sample_row (js ''Clicks'') = Str (js ''100'')"
    "cell sample_row (js ''Cost'') = Str (js ''50'')"
    "cell sample_row (js ''Avg. CPC'') = Str (js ''0.5'')"
    "cell sample_row (js ''Installs'') = Str (js ''20'')"
    "cell sample_row (js ''Trials'') = Str (js ''10'')"
    "cell sample_row (js ''Subscriptions'') = Str (js ''5'')"
    "cell sample_row (js ''Subscription Value'') = Str (js ''20'')"
    "cell sample_row (js ''Start Date'') = Str (js ''2024-01-15'')"
    "cell sample_row (js ''End Date'') = Str (js ''2024-02-01'')"
    "cell sample_row (js ''Ad Group'') = Str (js ''Brand'')"
    "sample_row (js ''id'') = None"
    by (simp_all add: sample_row_def cell_row_of row_of_lookup)
  have dates:
    "new_Date sample_parse (Str (js ''2024-01-15'')) = Inr (Date (Some 1705276800000))"
    "new_Date sample_parse (Str (js ''2024-02-01'')) = Inr (Date (Some 1706745600000))"
    by (simp_all add: sample_parse_def TimeClip_def js_inj)
  have nums:
    "parseInt10 (Str (js ''100'')) = Inr (Fin 100)"
    "parseFloat (Str (js ''50'')) = Inr (Fin 50)"
    "parseFloat (Str (js ''0.5'')) = Inr (Fin (1 / 2))"
    "parseInt10 (Str (js ''20'')) = Inr (Fin 20)"
    "parseInt10 (Str (js ''10'')) = Inr (Fin 10)"
    "parseInt10 (Str (js ''5'')) = Inr (Fin 5)"
    "parseFloat (Str (js ''20'')) = Inr (Fin 20)"
    by (simp_all add: parse_defs)
  show ?thesis
    unfolding row_object_def cells dates nums
    by (simp add: bind_exn_def js_or_def sample_record_def)
qed











section \<open>Properties of loading\<close>

lemma cell_cases: "cell row k = Undefined \<or> (\<exists>s. cell row k = Str s)"
  by (simp add: cell_def split: option.splits)

lemma parseInt10_projr: "parseInt10 (cell row k) = Inr (projr (parseInt10 (cell row k)))"
  using cell_cases [of row k] by (auto simp: parseInt10_def Let_def)

lemma parseFloat_projr: "parseFloat (cell row k) = Inr (projr (parseFloat (cell row k)))"
  using cell_cases [of row k] by (auto simp: parseFloat_def Let_def)

lemma new_Date_projr: "new_Date P (cell row k) = Inr (projr (new_Date P (cell row k)))"
  using cell_cases [of row k] by auto

lemma row_object_Inr:
  "row_object P index row = Inr
     \<lparr> row_id = (case row (js ''id'') of None \<Rightarrow> Index index | Some s \<Rightarrow> Column s),
       passthrough = row,
       Clicks = js_or (projr (parseInt10 (cell row (js ''Clicks'')))) 0,
       Cost = js_or (projr (parseFloat (cell row (js ''Cost'')))) 0,
       Avg_CPC = js_or (projr (parseFloat (cell row (js ''Avg. CPC'')))) 0,
       Installs = js_or (projr (parseInt10 (cell row (js ''Installs'')))) 0,
       Trials = js_or (projr (parseInt10 (cell row (js ''Trials'')))) 0,
       Subscriptions = js_or (projr (parseInt10 (cell row (js ''Subscriptions'')))) 0,
       Subscription_Value = js_or (projr (parseFloat (cell row (js ''Subscription Value'')))) 0,
       Start_Date = projr (new_Date P (cell row (js ''Start Date''))),
       End_Date = projr (new_Date P (cell row (js ''End Date''))),
       Ad_Group = cell row (js ''Ad Group'') \<rparr>"
  unfolding row_object_def
  apply (subst parseInt10_projr, subst bind_exn_def, subst sum.case)
  apply (subst parseFloat_projr, subst bind_exn_def, subst sum.case)
  apply (subst parseFloat_projr, subst bind_exn_def, subst sum.case)
  apply (subst parseInt10_projr, subst bind_exn_def, subst sum.case)
  apply (subst parseInt10_projr, subst bind_exn_def, subst sum.case)
  apply (subst parseInt10_projr, subst bind_exn_def, subst sum.case)
  apply (subst parseFloat_projr, subst bind_exn_def, subst sum.case)
  apply (subst new_Date_projr, subst bind_exn_def, subst sum.case)
  apply (subst new_Date_projr, subst bind_exn_def, subst sum.case)
  apply (rule refl)
  done

lemma processRow_Inr: "processRow P index row = Inr (projr (row_object P index row))"
  by (simp add: processRow_def row_object_Inr)

lemma processedData_total:
  "\<exists>recs. processedData P index rows = Inr recs \<and> length recs = length rows"
proof (induction rows arbitrary: index)
  case Nil
  show ?case by simp
next
  case (Cons row rows)
  obtain recs where "processedData P (Suc index) rows = Inr recs" "length recs = length rows"
    using Cons.IH by blast
  then show ?case
    by (simp add: processRow_Inr bind_exn_def)
qed

lemma missingColumns_props:
  "subseq (missingColumns headers) REQUIRED_COLUMNS"
  "set (missingColumns headers) = set REQUIRED_COLUMNS - set headers"
  "missingColumns headers = [] \<longleftrightarrow> set REQUIRED_COLUMNS \<subseteq> set headers"
  by (auto simp: missingColumns_def filter_empty_conv)

text \<open>
  C6: when the reader reports no parse error, either every required column is in the
  header and the load succeeds with one record per row, or some are missing and the load
  fails with the missing columns, listed in the order of the required list (a subsequence
  of it, whatever the order of the header), whatever the rows are: no row is normalised.
\<close>

theorem schema_validation:
  assumes "errors res = []"
  shows "(set REQUIRED_COLUMNS \<subseteq> set (meta_fields res) \<and>
          (\<exists>recs. complete P res = Inr recs \<and> processedData P 0 (data res) = Inr recs \<and>
                  length recs = length (data res)))
       \<or> (\<not> set REQUIRED_COLUMNS \<subseteq> set (meta_fields res) \<and>
          (\<exists>ms. ms \<noteq> [] \<and>
             ms = filter (\<lambda>col. col \<notin> set (meta_fields res)) REQUIRED_COLUMNS \<and>
             subseq ms REQUIRED_COLUMNS \<and>
             set ms = set REQUIRED_COLUMNS - set (meta_fields res) \<and>
             (\<forall>rows. complete P (res\<lparr>data := rows\<rparr>) = Inl (MissingColumns ms))))"
proof (cases "set REQUIRED_COLUMNS \<subseteq> set (meta_fields res)")
  case True
  then have "missingColumns (meta_fields res) = []"
    by (simp add: missingColumns_props)
  then have "complete P res = processedData P 0 (data res)"
    using assms by (simp add: complete_def)
  then show ?thesis
    using True processedData_total [of P 0 "data res"] by auto
next
  case False
  let ?ms = "missingColumns (meta_fields res)"
  have ne: "?ms \<noteq> []"
    using False by (simp add: missingColumns_props)
  then have "complete P (res\<lparr>data := rows\<rparr>) = Inl (MissingColumns ?ms)" for rows
    using assms by (simp add: complete_def)
  moreover have "?ms = filter (\<lambda>col. col \<notin> set (meta_fields res)) REQUIRED_COLUMNS"
    by (simp add: missingColumns_def)
  ultimately show ?thesis
    using False ne missingColumns_props(1,2) [of "meta_fields res"] by metis
qed

text \<open>C6 on a shuffled header without the subscription value column.\<close>

theorem schema_validation_witness:
  "errors \<lparr> data = [sample_row], errors = [],
            meta_fields = map js [''Ad Group'', ''End Date'', ''Start Date'', ''Subscriptions'',
              ''Trials'', ''Installs'', ''Avg. CPC'', ''Cost'', ''Clicks''] \<rparr> = [] \<and>
   complete sample_parse \<lparr> data = [sample_row], errors = [],
            meta_fields = map js [''Ad Group'', ''End Date'', ''Start Date'', ''Subscriptions'',
              ''Trials'', ''Installs'', ''Avg. CPC'', ''Cost'', ''Clicks''] \<rparr>
     = Inl (MissingColumns [js ''Subscription Value''])"
proof -
  define hs where "hs = map js [''Ad Group'', ''End Date'', ''Start Date'', ''Subscriptions'',
              ''Trials'', ''Installs'', ''Avg. CPC'', ''Cost'', ''Clicks'']"
  define res where "res = \<lparr> data = [sample_row], errors = [], meta_fields = hs \<rparr>"
  have e: "errors res = []"
    by (simp add: res_def)
  have m: "filter (\<lambda>col. col \<notin> set hs) REQUIRED_COLUMNS = [js ''Subscription Value'']"
    unfolding hs_def REQUIRED_COLUMNS_def by (simp add: js_inj)
  then have ne: "\<not> set REQUIRED_COLUMNS \<subseteq> set (meta_fields res)"
    using missingColumns_props(3) [of hs] by (simp add: missingColumns_def res_def)
  obtain ms where ms: "ms = filter (\<lambda>col. col \<notin> set (meta_fields res)) REQUIRED_COLUMNS"
      "\<forall>rows. complete sample_parse (res\<lparr>data := rows\<rparr>) = Inl (MissingColumns ms)"
    using schema_validation [OF e, of sample_parse] ne by blast
  have "ms = [js ''Subscription Value'']"
    using ms(1) m by (simp add: res_def)
  moreover have "res\<lparr>data := [sample_row]\<rparr> = res"
    by (simp add: res_def)
  ultimately have "complete sample_parse res = Inl (MissingColumns [js ''Subscription Value''])"
    using ms(2) by metis
  then show ?thesis
    using e unfolding res_def hs_def by simp
qed

text \<open>
  C9: on a cell that is a string or absent, \<open>parseInt\<close>, \<open>parseFloat\<close> and the Date
  constructor return; so each row yields a record, a batch yields one record per row, and
  the row-processing error is never the outcome.
\<close>

theorem normalization_total:
  "(\<exists>n. parseInt10 (cell row k) = Inr n) \<and>
   (\<exists>x. parseFloat (cell row k) = Inr x) \<and>
   (\<exists>d. new_Date P (cell row k) = Inr d) \<and>
   (\<exists>rec. processRow P i row = Inr rec) \<and>
   (\<exists>recs. processedData P i rows = Inr recs \<and> length recs = length rows) \<and>
   processedData P i rows \<noteq> Inl (RowProcessingError n e) \<and>
   complete P res \<noteq> Inl (RowProcessingError n e)"
proof -
  have a: "\<exists>recs. processedData P j rs = Inr recs \<and> length recs = length rs" for j rs
    by (rule processedData_total)
  have "complete P res \<noteq> Inl (RowProcessingError n e)"
    using a [of 0 "data res"] by (auto simp: complete_def Let_def)
  moreover have "processedData P i rows \<noteq> Inl (RowProcessingError n e)"
    using a [of i rows] by auto
  ultimately show ?thesis
    using a [of i rows] parseInt10_projr [of row k] parseFloat_projr [of row k]
      new_Date_projr [of P row k] processRow_Inr [of P i row]
    by blast
qed

text \<open>C9 on a row with a malformed number and date, and on the sample row.\<close>

theorem normalization_total_witness:
  "processRow sample_parse 3 (row_of [(''Clicks'', ''abc''), (''Start Date'', ''soon'')]) \<noteq>
     Inl (RowProcessingError 5 TypeError) \<and>
   processRow sample_parse 0 sample_row = Inr sample_record"
  using normalization_total [of "row_of [(''Clicks'', ''abc''), (''Start Date'', ''soon'')]" _ sample_parse 3]
  by (auto simp: processRow_def sample_row_object)

section \<open>Properties of the filter and of the empty summary\<close>

lemma summary_Nil:
  "summary [] =
     \<lparr> total_Clicks = Fin 0, total_Cost = Fin 0, total_Installs = Fin 0, total_Trials = Fin 0,
       total_Subscriptions = Fin 0, total_Subscription_Value = Fin 0,
       cpi = Fin 0, installRate = Fin 0, installToTrialRate = Fin 0, trialCost = Fin 0,
       installToPaidRate = Fin 0, cac = Fin 0, valueCostRatio = Fin 0, overallConversion = Fin 0,
       roi = Fin 0 \<rparr>"
  by (simp add: summary_def initial_def safeDivide_def zero_jsnum_def)

text \<open>
  C3: the summary of the empty sequence has every total and every ratio equal to 0; and
  for any sequence, a ratio whose denominator total is 0 is 0.
\<close>

theorem summary_zero_denominators:
  "summary [] =
     \<lparr> total_Clicks = Fin 0, total_Cost = Fin 0, total_Installs = Fin 0, total_Trials = Fin 0,
       total_Subscriptions = Fin 0, total_Subscription_Value = Fin 0,
       cpi = Fin 0, installRate = Fin 0, installToTrialRate = Fin 0, trialCost = Fin 0,
       installToPaidRate = Fin 0, cac = Fin 0, valueCostRatio = Fin 0, overallConversion = Fin 0,
       roi = Fin 0 \<rparr> \<and>
   trialToSubscription (summary []) = Fin 0 \<and>
   (total_Installs (summary R) = Fin 0 \<longrightarrow>
      cpi (summary R) = Fin 0 \<and> installToTrialRate (summary R) = Fin 0 \<and>
      installToPaidRate (summary R) = Fin 0) \<and>
   (total_Clicks (summary R) = Fin 0 \<longrightarrow>
      installRate (summary R) = Fin 0 \<and> overallConversion (summary R) = Fin 0) \<and>
   (total_Trials (summary R) = Fin 0 \<longrightarrow>
      trialCost (summary R) = Fin 0 \<and> trialToSubscription (summary R) = Fin 0) \<and>
   (total_Subscriptions (summary R) = Fin 0 \<longrightarrow> cac (summary R) = Fin 0) \<and>
   (total_Cost (summary R) = Fin 0 \<longrightarrow>
      valueCostRatio (summary R) = Fin 0 \<and> roi (summary R) = Fin 0)"
proof -
  have "trialToSubscription (summary []) = Fin 0"
    by (simp add: summary_Nil trialToSubscription_def safeDivide_zero)
  then show ?thesis
    by (simp add: summary_Nil summary_ratios trialToSubscription_def safeDivide_zero)
qed

text \<open>C3 on a record with no installs and no trials, and on the empty sequence.\<close>

theorem summary_zero_denominators_witness:
  "total_Installs (summary [sample_record\<lparr>Installs := Fin 0, Trials := Fin 0\<rparr>]) = Fin 0 \<and>
   total_Trials (summary [sample_record\<lparr>Installs := Fin 0, Trials := Fin 0\<rparr>]) = Fin 0 \<and>
   total_Cost (summary [sample_record\<lparr>Installs := Fin 0, Trials := Fin 0\<rparr>]) = Fin 50 \<and>
   cpi (summary [sample_record\<lparr>Installs := Fin 0, Trials := Fin 0\<rparr>]) = Fin 0 \<and>
   trialCost (summary [sample_record\<lparr>Installs := Fin 0, Trials := Fin 0\<rparr>]) = Fin 0 \<and>
   total_Clicks (summary []) = Fin 0 \<and> total_Subscriptions (summary []) = Fin 0 \<and>
   total_Cost (summary []) = Fin 0 \<and> installRate (summary []) = Fin 0 \<and>
   cac (summary []) = Fin 0 \<and> roi (summary []) = Fin 0"
  using summary_zero_denominators [of "[sample_record\<lparr>Installs := Fin 0, Trials := Fin 0\<rparr>]"]
    summary_zero_denominators [of "[]"]
  by (simp add: summary_totals sample_record_def plus_jsnum_def zero_jsnum_def)







text \<open>
  C5: a row whose start date string does not parse is normalised without an exception, to
  a record with an invalid start date; whenever the lower bound of the date range is set,
  the date predicate is false for that record and no filtered sequence contains it.
\<close>

theorem unparsable_start_date_excluded:
  assumes "row (js ''Start Date'') = Some s" and "P s = None"
  shows "\<exists>rec. processRow P i row = Inr rec \<and> Start_Date rec = Date None \<and>
           (\<forall>f lo. range_from (dateRange f) = Some lo \<longrightarrow>
              \<not> inDateRange f rec \<and> (\<forall>dat. rec \<notin> set (filteredData dat f)))"
proof -
  let ?rec = "projr (row_object P i row)"
  have "new_Date P (cell row (js ''Start Date'')) = Inr (Date None)"
    using assms by (simp add: cell_def TimeClip_def)
  then have sd: "Start_Date ?rec = Date None"
    by (simp add: row_object_Inr)
  have "\<not> inDateRange f ?rec" if "range_from (dateRange f) = Some lo" for f lo
    using that sd by (simp add: inDateRange_def date_ge_def)
  then show ?thesis
    using sd processRow_Inr [of P i row] by (auto simp: filteredData_def)
qed

text \<open>C5 on a row whose start date reads \<open>soon\<close>.\<close>

theorem unparsable_start_date_excluded_witness:
  "row_of [(''Clicks'', ''7''), (''Start Date'', ''soon'')] (js ''Start Date'') = Some (js ''soon'') \<and>
   sample_parse (js ''soon'') = None \<and>
   (\<exists>rec. processRow sample_parse 0 (row_of [(''Clicks'', ''7''), (''Start Date'', ''soon'')]) = Inr rec \<and>
      Start_Date rec = Date None \<and>
      (\<forall>f lo. range_from (dateRange f) = Some lo \<longrightarrow>
         \<not> inDateRange f rec \<and> (\<forall>dat. rec \<notin> set (filteredData dat f))))"
proof -
  have a: "row_of [(''Clicks'', ''7''), (''Start Date'', ''soon'')] (js ''Start Date'') = Some (js ''soon'')"
    by (simp add: row_of_lookup)
  have b: "sample_parse (js ''soon'') = None"
    by (simp add: sample_parse_def js_inj)
  show ?thesis
    using a b unparsable_start_date_excluded
      [of "row_of [(''Clicks'', ''7''), (''Start Date'', ''soon'')]" "js ''soon''" sample_parse 0]
    by blast
qed

section \<open>Properties of the number parsers\<close>






































end
